theory Spec2Isabelle
  imports Main
begin

section \<open>Course scheduler: the registration core of App.js\<close>

text \<open>
  The development embeds the registration logic of \<^verbatim>\<open>src/App.js\<close>: the time utilities
  (\<^verbatim>\<open>timeToMinutes\<close>, \<^verbatim>\<open>timesOverlap\<close>), the conflict checker (\<^verbatim>\<open>checkConflict\<close>) and
  the store operations that the component \<^verbatim>\<open>App\<close> closes over (\<^verbatim>\<open>addCourse\<close>,
  \<^verbatim>\<open>updateCourse\<close>, \<^verbatim>\<open>deleteCourse\<close>, \<^verbatim>\<open>registerCourse\<close>, \<^verbatim>\<open>unregisterCourse\<close>,
  \<^verbatim>\<open>addUser\<close>).

  The React state touched by these operations is the pair \<^verbatim>\<open>data\<close>, \<^verbatim>\<open>message\<close>. An
  operation is modelled as a function from the current \<^verbatim>\<open>data\<close> (and its arguments)
  to the pair of the next \<^verbatim>\<open>data\<close> and the text handed to \<^verbatim>\<open>setMessage\<close>. A path that
  returns before \<^verbatim>\<open>setData\<close> yields the old \<^verbatim>\<open>data\<close>.
\<close>

subsection \<open>Data model\<close>

text \<open>
  The objects of \<^verbatim>\<open>defaultData\<close>. Field names follow the source, except \<^verbatim>\<open>id\<close>,
  \<^verbatim>\<open>name\<close> and \<^verbatim>\<open>end\<close> of a course, written \<open>course_id\<close>, \<open>course_name\<close> and
  \<open>end_t\<close>. Two fields are optional because the code itself provides for their absence:
  \<^verbatim>\<open>seats\<close> (\<^verbatim>\<open>course.seats || 9999\<close>) and \<^verbatim>\<open>registrations\<close>
  (\<^verbatim>\<open>s.registrations?.includes\<close>, \<^verbatim>\<open>s.registrations || []\<close>). For \<open>seats\<close>, \<open>None\<close>
  stands for a value that is no number at all (\<^verbatim>\<open>undefined\<close>, \<^verbatim>\<open>null\<close>, \<^verbatim>\<open>NaN\<close>);
  numbers are integers.
\<close>

record course =
  course_id :: string
  course_name :: string
  code :: string
  description :: string
  days :: "string list"
  start :: string
  end_t :: string
  dateRange :: string
  seats :: "int option"

record user =
  username :: string
  password :: string
  name :: string

record student = user +
  registrations :: "string list option"

record user_lists =
  admins :: "user list"
  students :: "student list"

record store =
  users :: user_lists
  courses :: "course list"

definition defaultData :: store where
  "defaultData =
    \<lparr>users =
       \<lparr>admins =
          [\<lparr>username = ''admin1'', password = ''admin1'', name = ''Admin One''\<rparr>,
           \<lparr>username = ''admin2'', password = ''admin2'', name = ''Admin Two''\<rparr>],
        students =
          [\<lparr>username = ''student1'', password = ''student1'', name = ''Student One'',
             registrations = Some []\<rparr>,
           \<lparr>username = ''student2'', password = ''student2'', name = ''Student Two'',
             registrations = Some []\<rparr>]\<rparr>,
     courses =
       [\<lparr>course_id = ''CSE101'', course_name = ''Introduction to Programming'',
          code = ''CSE101'',
          description = ''Basics of programming in Python: variables, loops, functions.'',
          days = [''Mon'', ''Wed''], start = ''09:00'', end_t = ''10:30'',
          dateRange = ''2025-12-01 to 2026-03-30'', seats = Some 30\<rparr>,
        \<lparr>course_id = ''MAT201'', course_name = ''Discrete Mathematics'',
          code = ''MAT201'',
          description = ''Logic, sets, relations, combinatorics and graph theory.'',
          days = [''Tue'', ''Thu''], start = ''11:00'', end_t = ''12:30'',
          dateRange = ''2025-12-01 to 2026-03-30'', seats = Some 25\<rparr>]\<rparr>"

subsection \<open>JavaScript numbers, as far as the time utilities use them\<close>

text \<open>
  A number is an integer or \<^verbatim>\<open>NaN\<close>. Arithmetic propagates \<^verbatim>\<open>NaN\<close>, \<^verbatim>\<open>Math.max\<close> and
  \<^verbatim>\<open>Math.min\<close> return \<^verbatim>\<open>NaN\<close> as soon as one argument is \<^verbatim>\<open>NaN\<close>, and \<^verbatim>\<open><\<close> is
  false as soon as one operand is \<^verbatim>\<open>NaN\<close>.
\<close>

datatype jsnum = NaN | Num int

fun js_add :: "jsnum \<Rightarrow> jsnum \<Rightarrow> jsnum" where
  "js_add (Num a) (Num b) = Num (a + b)"
| "js_add _ _ = NaN"

fun js_mul :: "jsnum \<Rightarrow> jsnum \<Rightarrow> jsnum" where
  "js_mul (Num a) (Num b) = Num (a * b)"
| "js_mul _ _ = NaN"

fun Math_max :: "jsnum \<Rightarrow> jsnum \<Rightarrow> jsnum" where
  "Math_max (Num a) (Num b) = Num (max a b)"
| "Math_max _ _ = NaN"

fun Math_min :: "jsnum \<Rightarrow> jsnum \<Rightarrow> jsnum" where
  "Math_min (Num a) (Num b) = Num (min a b)"
| "Math_min _ _ = NaN"

fun js_less :: "jsnum \<Rightarrow> jsnum \<Rightarrow> bool" where
  "js_less (Num a) (Num b) = (a < b)"
| "js_less _ _ = False"

text \<open>
  \<^verbatim>\<open>t.split(":")\<close>: the pieces of \<open>t\<close> between the separators, one piece more than
  there are separators (so the empty string gives one empty piece).
\<close>

fun split_on :: "char \<Rightarrow> string \<Rightarrow> string list" where
  "split_on sep [] = [[]]"
| "split_on sep (c # cs) =
     (if c = sep then [] # split_on sep cs
      else (case split_on sep cs of
              [] \<Rightarrow> [[c]]
            | w # ws \<Rightarrow> (c # w) # ws))"

text \<open>
  \<^verbatim>\<open>Number(s)\<close> on a string. The model converts a string of decimal digits to its
  value and the empty string to 0, as JavaScript does, and gives \<^verbatim>\<open>NaN\<close> for every
  other string. JavaScript also accepts surrounding white space, a sign, a fraction, an
  exponent, radix prefixes and \<^verbatim>\<open>Infinity\<close>; those strings are outside the model, and
  no theorem below depends on the value the model gives them.
\<close>

definition is_digit :: "char \<Rightarrow> bool" where
  "is_digit c = (48 \<le> (of_char c :: nat) \<and> (of_char c :: nat) \<le> 57)"

fun digits_value :: "int \<Rightarrow> string \<Rightarrow> jsnum" where
  "digits_value acc [] = Num acc"
| "digits_value acc (c # cs) =
     (if is_digit c then digits_value (acc * 10 + (int (of_char c) - 48)) cs else NaN)"

definition Number_of :: "string \<Rightarrow> jsnum" where
  "Number_of s = digits_value 0 s"

text \<open>
  An element of the destructured array \<^verbatim>\<open>[hh, mm]\<close>: a missing element is
  \<^verbatim>\<open>undefined\<close>, which arithmetic turns into \<^verbatim>\<open>NaN\<close>.
\<close>

definition element :: "jsnum list \<Rightarrow> nat \<Rightarrow> jsnum" where
  "element xs i = (if i < length xs then xs ! i else NaN)"

subsection \<open>Time utilities and conflict check\<close>

definition timeToMinutes :: "string \<Rightarrow> jsnum" where
  "timeToMinutes t =
     (let parts = map Number_of (split_on (CHR '':'') t);
          hh = element parts 0;
          mm = element parts 1
      in js_add (js_mul hh (Num 60)) mm)"

definition timesOverlap :: "jsnum \<Rightarrow> jsnum \<Rightarrow> jsnum \<Rightarrow> jsnum \<Rightarrow> bool" where
  "timesOverlap aStart aEnd bStart bEnd =
     js_less (Math_max aStart bStart) (Math_min aEnd bEnd)"

definition checkConflict :: "course \<Rightarrow> course \<Rightarrow> bool" where
  "checkConflict courseA courseB =
     (let daysIntersection = list_ex (\<lambda>d. d \<in> set (days courseB)) (days courseA)
      in if \<not> daysIntersection then False
         else timesOverlap (timeToMinutes (start courseA)) (timeToMinutes (end_t courseA))
                (timeToMinutes (start courseB)) (timeToMinutes (end_t courseB)))"

subsection \<open>Store operations\<close>

text \<open>
  \<^verbatim>\<open>course.seats || 9999\<close>: a value of \<^verbatim>\<open>seats\<close> that is falsy (no number, or the
  number 0) is replaced by 9999.
\<close>

definition seats_or_default :: "course \<Rightarrow> int" where
  "seats_or_default course =
     (case seats course of
        None \<Rightarrow> 9999
      | Some n \<Rightarrow> if n = 0 then 9999 else n)"

text \<open>\<^verbatim>\<open>s.registrations || []\<close>\<close>

definition registrations_or_empty :: "student \<Rightarrow> string list" where
  "registrations_or_empty s = (case registrations s of None \<Rightarrow> [] | Some rs \<Rightarrow> rs)"

text \<open>\<^verbatim>\<open>s.registrations?.includes(courseId)\<close>, read as a condition\<close>

definition includes_registration :: "student \<Rightarrow> string \<Rightarrow> bool" where
  "includes_registration s courseId =
     (case registrations s of None \<Rightarrow> False | Some rs \<Rightarrow> courseId \<in> set rs)"

text \<open>The \<^verbatim>\<open>reduce\<close> of \<^verbatim>\<open>registerCourse\<close> that counts the seats taken.\<close>

definition registrationsCount :: "store \<Rightarrow> string \<Rightarrow> int" where
  "registrationsCount data courseId =
     foldl (\<lambda>acc s. acc + (if includes_registration s courseId then 1 else 0)) 0
       (students (users data))"

definition addCourse :: "store \<Rightarrow> course \<Rightarrow> store \<times> string" where
  "addCourse data course =
     (case find (\<lambda>c. course_id c = course_id course) (courses data) of
        Some _ \<Rightarrow> (data, ''Course with same ID already exists.'')
      | None \<Rightarrow> (data\<lparr>courses := courses data @ [course]\<rparr>, ''Course added''))"

definition updateCourse :: "store \<Rightarrow> course \<Rightarrow> store \<times> string" where
  "updateCourse data updated =
     (let newCourses =
            map (\<lambda>c. if course_id c = course_id updated then updated else c) (courses data)
      in (data\<lparr>courses := newCourses\<rparr>, ''Course updated''))"

definition deleteCourse :: "store \<Rightarrow> string \<Rightarrow> store \<times> string" where
  "deleteCourse data ident =
     (let newStudents =
            map (\<lambda>s. s\<lparr>registrations :=
                         (case registrations s of
                            Some rs \<Rightarrow> Some (filter (\<lambda>r. r \<noteq> ident) rs)
                          | None \<Rightarrow> Some [])\<rparr>)
              (students (users data));
          newCourses = filter (\<lambda>c. course_id c \<noteq> ident) (courses data)
      in (data\<lparr>courses := newCourses, users := (users data)\<lparr>students := newStudents\<rparr>\<rparr>,
          ''Course deleted and registrations updated''))"

text \<open>
  \<^verbatim>\<open>registerCourse\<close> reads \<^verbatim>\<open>student.registrations\<close> on the result of a \<^verbatim>\<open>find\<close>. When
  the \<^verbatim>\<open>find\<close> returns \<^verbatim>\<open>undefined\<close> the read throws a \<^verbatim>\<open>TypeError\<close>; neither
  \<^verbatim>\<open>setData\<close> nor \<^verbatim>\<open>setMessage\<close> has been called by then. The throw is the \<open>Inl\<close>
  branch of the result.
\<close>

datatype exn = TypeError

definition registerCourse :: "store \<Rightarrow> string \<Rightarrow> string \<Rightarrow> exn + store \<times> string" where
  "registerCourse data studentUsername courseId =
     (case find (\<lambda>c. course_id c = courseId) (courses data) of
        None \<Rightarrow> Inr (data, ''Course not found'')
      | Some course \<Rightarrow>
          if registrationsCount data courseId \<ge> seats_or_default course
          then Inr (data, ''No seats available'')
          else
            (case find (\<lambda>s. username s = studentUsername) (students (users data)) of
               None \<Rightarrow> Inl TypeError
             | Some student \<Rightarrow>
                 (let studentRegs = registrations_or_empty student;
                      regCourses = filter (\<lambda>c. course_id c \<in> set studentRegs) (courses data);
                      conflict = list_ex (\<lambda>rc. checkConflict rc course) regCourses
                  in if conflict
                     then Inr (data, ''Cannot register due to a schedule conflict'')
                     else
                       (let newStudents =
                              map (\<lambda>s. if username s = studentUsername
                                        then s\<lparr>registrations :=
                                                 Some (registrations_or_empty s @ [courseId])\<rparr>
                                        else s)
                                (students (users data))
                        in Inr (data\<lparr>users := (users data)\<lparr>students := newStudents\<rparr>\<rparr>,
                                ''Registered successfully'')))))"

definition unregisterCourse :: "store \<Rightarrow> string \<Rightarrow> string \<Rightarrow> store \<times> string" where
  "unregisterCourse data studentUsername courseId =
     (let newStudents =
            map (\<lambda>s. if username s = studentUsername
                      then s\<lparr>registrations :=
                               Some (filter (\<lambda>r. r \<noteq> courseId) (registrations_or_empty s))\<rparr>
                      else s)
              (students (users data))
      in (data\<lparr>users := (users data)\<lparr>students := newStudents\<rparr>\<rparr>, ''Unregistered''))"

text \<open>
  \<^verbatim>\<open>addUser(type, user)\<close>: the first argument is compared with the string
  \<^verbatim>\<open>"admin"\<close>; every other value takes the student branch, which copies the fields of
  \<^verbatim>\<open>user\<close> and sets \<^verbatim>\<open>registrations\<close> to the empty array.
\<close>

definition addUser :: "store \<Rightarrow> string \<Rightarrow> user \<Rightarrow> store \<times> string" where
  "addUser data type user =
     (if type = ''admin'' then
        (case find (\<lambda>a. username a = username user) (admins (users data)) of
           Some _ \<Rightarrow> (data, ''Admin username taken'')
         | None \<Rightarrow>
             (data\<lparr>users := (users data)\<lparr>admins := admins (users data) @ [user]\<rparr>\<rparr>,
              ''Admin added''))
      else
        (case find (\<lambda>s. username s = username user) (students (users data)) of
           Some _ \<Rightarrow> (data, ''Student username taken'')
         | None \<Rightarrow>
             (data\<lparr>users := (users data)\<lparr>students := students (users data) @
                 [\<lparr>username = username user, password = password user, name = name user,
                   registrations = Some []\<rparr>]\<rparr>\<rparr>,
              ''Student added'')))"

subsection \<open>Example stores\<close>

text \<open>A Monday course with the given identifier, start and end.\<close>

definition mon_course :: "string \<Rightarrow> string \<Rightarrow> string \<Rightarrow> course" where
  "mon_course ident s e =
     \<lparr>course_id = ident, course_name = [], code = ident, description = [],
      days = [''Mon''], start = s, end_t = e, dateRange = [], seats = Some 30\<rparr>"

text \<open>One course with a single seat, taken by the first of two students.\<close>

definition one_seat_store :: store where
  "one_seat_store =
    \<lparr>users =
       \<lparr>admins = [],
        students =
          [\<lparr>username = ''student1'', password = ''student1'', name = ''Student One'',
             registrations = Some [''CSE101'']\<rparr>,
           \<lparr>username = ''student2'', password = ''student2'', name = ''Student Two'',
             registrations = Some []\<rparr>]\<rparr>,
     courses = [(mon_course ''CSE101'' ''09:00'' ''10:30'')\<lparr>seats := Some 1\<rparr>]\<rparr>"

text \<open>
  A course without a \<^verbatim>\<open>seats\<close> value, and a store in which 9999 students with pairwise
  different usernames are registered for it and one more student is not.
\<close>

definition open_course :: course where
  "open_course =
     \<lparr>course_id = ''OPEN'', course_name = ''Open lecture'', code = ''OPEN'', description = [],
      days = [''Fri''], start = ''17:00'', end_t = ''18:00'', dateRange = [], seats = None\<rparr>"

definition crowd :: "nat \<Rightarrow> student list" where
  "crowd n =
     map (\<lambda>k. \<lparr>username = replicate (Suc k) (CHR ''s''), password = [], name = [],
                registrations = Some [''OPEN'']\<rparr>) [0..<n]"

definition crowded_store :: store where
  "crowded_store =
    \<lparr>users =
       \<lparr>admins = [],
        students =
          \<lparr>username = ''new'', password = [], name = [], registrations = Some []\<rparr> # crowd 9999\<rparr>,
     courses = [open_course]\<rparr>"

text \<open>
  A course as the admin form creates it when the field for the days is left alone
  (\<^verbatim>\<open>days: []\<close>, 09:00 to 10:00, 30 seats), and a store whose only student is
  registered for it.
\<close>

definition seminar :: course where
  "seminar =
     \<lparr>course_id = ''SEM1'', course_name = ''Seminar'', code = ''SEM1'', description = [],
      days = [], start = ''09:00'', end_t = ''10:00'', dateRange = [], seats = Some 30\<rparr>"

definition seminar_store :: store where
  "seminar_store =
    \<lparr>users =
       \<lparr>admins = [],
        students =
          [\<lparr>username = ''student1'', password = ''student1'', name = ''Student One'',
             registrations = Some [''SEM1'']\<rparr>]\<rparr>,
     courses = [seminar]\<rparr>"

section \<open>Properties\<close>

subsection \<open>Lookups with find\<close>

lemma find_in_set: "find P xs = Some x \<Longrightarrow> x \<in> set xs \<and> P x"
  by (induction xs) (auto split: if_splits)

lemma find_is_None: "(find (\<lambda>x. f x = k) xs = None) = (k \<notin> f ` set xs)"
  by (auto simp: find_None_iff)

lemma find_is_Some: "(\<exists>x. find (\<lambda>x. f x = k) xs = Some x) = (k \<in> f ` set xs)"
  using find_is_None [of f k xs] by (cases "find (\<lambda>x. f x = k) xs") simp_all

subsection \<open>Time utilities\<close>

lemma timesOverlap_Num:
  "timesOverlap (Num aStart) (Num aEnd) (Num bStart) (Num bEnd)
     = (max aStart bStart < min aEnd bEnd)"
  by (simp add: timesOverlap_def)

lemma timesOverlap_NaN:
  "\<not> timesOverlap NaN aEnd bStart bEnd" "\<not> timesOverlap aStart NaN bStart bEnd"
  "\<not> timesOverlap aStart aEnd NaN bEnd" "\<not> timesOverlap aStart aEnd bStart NaN"
  by (simp_all add: timesOverlap_def)

lemma timeToMinutes_examples:
  "timeToMinutes ''09:00'' = Num 540" "timeToMinutes ''09:59'' = Num 599"
  "timeToMinutes ''10:00'' = Num 600" "timeToMinutes ''10:01'' = Num 601"
  "timeToMinutes ''11:00'' = Num 660"
  by (simp_all add: timeToMinutes_def Number_of_def element_def is_digit_def)

lemma checkConflict_mon_course:
  "checkConflict (mon_course a s e) (mon_course b s' e')
     = timesOverlap (timeToMinutes s) (timeToMinutes e) (timeToMinutes s') (timeToMinutes e')"
  by (simp add: checkConflict_def mon_course_def)

text \<open>
  C5. On numbers, \<^verbatim>\<open>timesOverlap\<close> holds iff the larger start is before the smaller end;
  an interval that ends where the other starts does not overlap it, and a \<^verbatim>\<open>NaN\<close> in any
  place gives no overlap. On Monday courses: 09:00 to 10:00 and 10:00 to 11:00 do not
  conflict; ending the first at 10:01, or starting the second at 09:59, makes them
  conflict.
\<close>

theorem timesOverlap_half_open:
  "timesOverlap (Num aStart) (Num aEnd) (Num bStart) (Num bEnd)
     = (max aStart bStart < min aEnd bEnd)
   \<and> \<not> timesOverlap (Num aStart) (Num t) (Num t) (Num bEnd)
   \<and> \<not> timesOverlap NaN aEnd' bStart' bEnd' \<and> \<not> timesOverlap aStart' NaN bStart' bEnd'
   \<and> \<not> timesOverlap aStart' aEnd' NaN bEnd' \<and> \<not> timesOverlap aStart' aEnd' bStart' NaN
   \<and> \<not> checkConflict (mon_course ''A'' ''09:00'' ''10:00'') (mon_course ''B'' ''10:00'' ''11:00'')
   \<and> checkConflict (mon_course ''A'' ''09:00'' ''10:01'') (mon_course ''B'' ''10:00'' ''11:00'')
   \<and> checkConflict (mon_course ''A'' ''09:00'' ''10:00'') (mon_course ''B'' ''09:59'' ''11:00'')"
  by (simp add: checkConflict_mon_course timeToMinutes_examples timesOverlap_Num timesOverlap_NaN)

subsection \<open>Conflict check\<close>

lemma Math_max_commute: "Math_max a b = Math_max b a"
  by (cases a; cases b) (simp_all add: max.commute)

lemma Math_min_commute: "Math_min a b = Math_min b a"
  by (cases a; cases b) (simp_all add: min.commute)

lemma days_intersection_sym:
  "list_ex (\<lambda>d. d \<in> set ys) xs = list_ex (\<lambda>d. d \<in> set xs) ys"
  by (auto simp: list_ex_iff)

text \<open>
  C4. The conflict check is symmetric: for all courses A and B, \<open>checkConflict A B\<close> and
  \<open>checkConflict B A\<close> are the same truth value. This covers time strings that do not
  parse, since \<^verbatim>\<open>Math.max\<close>, \<^verbatim>\<open>Math.min\<close> are symmetric on \<^verbatim>\<open>NaN\<close> too.
\<close>

theorem checkConflict_symmetric: "checkConflict courseA courseB = checkConflict courseB courseA"
proof -
  have d: "list_ex (\<lambda>d. d \<in> set (days courseB)) (days courseA)
         = list_ex (\<lambda>d. d \<in> set (days courseA)) (days courseB)"
    by (rule days_intersection_sym)
  have t: "timesOverlap a b c e = timesOverlap c e a b" for a b c e
    unfolding timesOverlap_def by (simp add: Math_max_commute [of a c] Math_min_commute [of b e])
  show ?thesis
    unfolding checkConflict_def Let_def d by (simp add: t)
qed

text \<open>
  C6. Two courses whose lists of weekday labels have no label in common do not conflict,
  whatever their start and end times are.
\<close>

theorem checkConflict_disjoint_days:
  assumes "set (days courseA) \<inter> set (days courseB) = {}"
  shows "checkConflict courseA courseB = False"
proof -
  from assms have "\<not> list_ex (\<lambda>d. d \<in> set (days courseB)) (days courseA)"
    by (auto simp: list_ex_iff)
  then show ?thesis
    by (simp add: checkConflict_def)
qed

theorem checkConflict_disjoint_days_witness:
  "set (days (mon_course ''A'' ''09:00'' ''10:30'')) \<inter> set (days open_course) = {}
   \<and> checkConflict (mon_course ''A'' ''09:00'' ''10:30'') open_course = False"
proof -
  have h: "set (days (mon_course ''A'' ''09:00'' ''10:30'')) \<inter> set (days open_course) = {}"
    by (simp add: mon_course_def open_course_def)
  show ?thesis
    using h checkConflict_disjoint_days [OF h] by simp
qed

subsection \<open>Seat check of registerCourse\<close>

lemma includes_registration_iff:
  "includes_registration s courseId = (courseId \<in> set (registrations_or_empty s))"
  by (simp add: includes_registration_def registrations_or_empty_def split: option.split)

lemma foldl_count:
  "foldl (\<lambda>acc s. acc + (if P s then 1 else 0)) (a::int) xs = a + int (length (filter P xs))"
  by (induction xs arbitrary: a) simp_all

lemma registrationsCount_eq:
  "registrationsCount data courseId =
     int (length (filter (\<lambda>s. courseId \<in> set (registrations_or_empty s)) (students (users data))))"
  by (simp add: registrationsCount_def foldl_count includes_registration_iff)

text \<open>
  C1, as amended. Let \<open>C\<close> be the course that \<^verbatim>\<open>find\<close> returns for \<open>courseId\<close>, with a
  \<^verbatim>\<open>seats\<close> value other than 0. The registration is refused with the message
  \<^verbatim>\<open>No seats available\<close> exactly when the number of students whose registration list
  contains \<open>courseId\<close> is at least the cap, where the cap is \<open>seats C\<close> when there is such a
  number and 9999 when the course has no \<^verbatim>\<open>seats\<close> value. On that refusal the store,
  hence every registration list, is the one before the call.
\<close>

theorem registerCourse_seats_full:
  assumes "find (\<lambda>c. course_id c = courseId) (courses data) = Some C"
    and "seats C \<noteq> Some 0"
  shows "((\<exists>data'. registerCourse data studentUsername courseId = Inr (data', ''No seats available''))
          = ((case seats C of Some n \<Rightarrow> n | None \<Rightarrow> 9999)
               \<le> int (length (filter (\<lambda>s. courseId \<in> set (registrations_or_empty s))
                                 (students (users data))))))
       \<and> (\<forall>data'. registerCourse data studentUsername courseId = Inr (data', ''No seats available'')
              \<longrightarrow> data' = data)"
proof -
  have cap: "seats_or_default C = (case seats C of Some n \<Rightarrow> n | None \<Rightarrow> 9999)"
    using assms(2) by (simp add: seats_or_default_def split: option.split)
  show ?thesis
    using assms(1)
    by (auto simp: registerCourse_def Let_def cap [symmetric] registrationsCount_eq
             split: option.splits if_splits)
qed

theorem registerCourse_seats_full_witness:
  "find (\<lambda>c. course_id c = ''CSE101'') (courses one_seat_store)
     = Some ((mon_course ''CSE101'' ''09:00'' ''10:30'')\<lparr>seats := Some 1\<rparr>)
   \<and> seats ((mon_course ''CSE101'' ''09:00'' ''10:30'')\<lparr>seats := Some 1\<rparr>) \<noteq> Some 0
   \<and> length (filter (\<lambda>s. ''CSE101'' \<in> set (registrations_or_empty s))
               (students (users one_seat_store))) = 1
   \<and> registerCourse one_seat_store ''student2'' ''CSE101''
        = Inr (one_seat_store, ''No seats available'')"
proof -
  let ?C = "(mon_course ''CSE101'' ''09:00'' ''10:30'')\<lparr>seats := Some 1\<rparr>"
  have f: "find (\<lambda>c. course_id c = ''CSE101'') (courses one_seat_store) = Some ?C"
    by (simp add: one_seat_store_def mon_course_def)
  have z: "seats ?C \<noteq> Some 0"
    by simp
  have n: "length (filter (\<lambda>s. ''CSE101'' \<in> set (registrations_or_empty s))
               (students (users one_seat_store))) = 1"
    by (simp add: one_seat_store_def registrations_or_empty_def)
  note t = registerCourse_seats_full [OF f z, of "''student2''"]
  from t n obtain data' where
    r: "registerCourse one_seat_store ''student2'' ''CSE101'' = Inr (data', ''No seats available'')"
    by auto
  with t have "data' = one_seat_store"
    by simp
  with r f z n show ?thesis
    by simp
qed

lemma length_crowd: "length (crowd n) = n"
  by (simp add: crowd_def)

lemma crowd_registered:
  "filter (\<lambda>s. ''OPEN'' \<in> set (registrations_or_empty s)) (crowd n) = crowd n"
  by (simp add: crowd_def registrations_or_empty_def filter_map comp_def)

lemma registrationsCount_crowded: "registrationsCount crowded_store ''OPEN'' = 9999"
proof -
  have "students (users crowded_store)
      = \<lparr>username = ''new'', password = [], name = [], registrations = Some []\<rparr> # crowd 9999"
    by (simp add: crowded_store_def)
  moreover have "''OPEN'' \<notin> set (registrations_or_empty
      \<lparr>username = ''new'', password = [], name = [], registrations = Some []\<rparr>)"
    by (simp add: registrations_or_empty_def)
  ultimately show ?thesis
    by (simp add: registrationsCount_eq crowd_registered length_crowd)
qed

text \<open>
  C1 as stated fails: \<open>open_course\<close> has no seat cap, yet once 9999 students are registered
  for it the next registration is refused with \<^verbatim>\<open>No seats available\<close>.
\<close>

theorem registerCourse_no_cap_counterexample:
  "courses crowded_store = [open_course]
   \<and> course_id open_course = ''OPEN''
   \<and> seats open_course = None
   \<and> registrationsCount crowded_store ''OPEN'' = 9999
   \<and> registerCourse crowded_store ''new'' ''OPEN'' = Inr (crowded_store, ''No seats available'')"
proof -
  have f: "find (\<lambda>c. course_id c = ''OPEN'') (courses crowded_store) = Some open_course"
    by (simp add: crowded_store_def open_course_def)
  have s: "seats_or_default open_course = 9999"
    by (simp add: seats_or_default_def open_course_def)
  have r: "registerCourse crowded_store ''new'' ''OPEN'' = Inr (crowded_store, ''No seats available'')"
    by (simp add: registerCourse_def f s registrationsCount_crowded)
  show ?thesis
    using r registrationsCount_crowded by (simp add: crowded_store_def open_course_def)
qed

text \<open>
  The number 0 as \<^verbatim>\<open>seats\<close> is falsy as well, so a course with zero seats gets the cap
  9999 too.
\<close>

lemma registerCourse_zero_seats:
  assumes "find (\<lambda>c. course_id c = courseId) (courses data) = Some C"
    and "seats C = Some 0"
  shows "(\<exists>data'. registerCourse data studentUsername courseId = Inr (data', ''No seats available''))
          = (9999 \<le> registrationsCount data courseId)"
proof -
  have cap: "seats_or_default C = 9999"
    using assms(2) by (simp add: seats_or_default_def)
  show ?thesis
    using assms(1)
    by (auto simp: registerCourse_def Let_def cap split: option.splits if_splits)
qed

subsection \<open>Registering without a student, registering twice\<close>

text \<open>
  C10. \<^verbatim>\<open>registerCourse\<close> reads \<^verbatim>\<open>student.registrations\<close> of a student that \<^verbatim>\<open>find\<close> did
  not find, and so throws, exactly when the course exists and has a free seat and no
  student has the given username. With a student of that username in the store the
  throw cannot happen.
\<close>

theorem registerCourse_needs_student:
  "(registerCourse data studentUsername courseId = Inl TypeError)
     = ((\<exists>C. find (\<lambda>c. course_id c = courseId) (courses data) = Some C
             \<and> registrationsCount data courseId < seats_or_default C)
        \<and> (\<forall>s\<in>set (students (users data)). username s \<noteq> studentUsername))"
  by (auto simp: registerCourse_def Let_def find_None_iff
           split: option.splits if_splits dest: find_in_set)

theorem registerCourse_needs_student_witness:
  "(\<exists>C. find (\<lambda>c. course_id c = ''CSE101'') (courses defaultData) = Some C
          \<and> registrationsCount defaultData ''CSE101'' < seats_or_default C)
   \<and> ''nobody'' \<notin> username ` set (students (users defaultData))
   \<and> registerCourse defaultData ''nobody'' ''CSE101'' = Inl TypeError"
proof -
  have a: "\<exists>C. find (\<lambda>c. course_id c = ''CSE101'') (courses defaultData) = Some C
          \<and> registrationsCount defaultData ''CSE101'' < seats_or_default C"
    by (simp add: defaultData_def registrationsCount_def includes_registration_def
          seats_or_default_def)
  have b: "''nobody'' \<notin> username ` set (students (users defaultData))"
    by (simp add: defaultData_def)
  have c: "\<forall>s\<in>set (students (users defaultData)). username s \<noteq> ''nobody''"
    by (simp add: defaultData_def)
  have "registerCourse defaultData ''nobody'' ''CSE101'' = Inl TypeError"
    unfolding registerCourse_needs_student [of defaultData "''nobody''" "''CSE101''"]
    using a c by (rule conjI)
  with a b show ?thesis
    by (intro conjI)
qed

lemma seminar_store_double:
  "registerCourse seminar_store ''student1'' ''SEM1'' =
     Inr (seminar_store\<lparr>users := (users seminar_store)\<lparr>students :=
            [\<lparr>username = ''student1'', password = ''student1'', name = ''Student One'',
              registrations = Some [''SEM1'', ''SEM1'']\<rparr>]\<rparr>\<rparr>,
          ''Registered successfully'')"
  by (simp add: registerCourse_def seminar_store_def seminar_def registrationsCount_def
        includes_registration_def seats_or_default_def registrations_or_empty_def
        checkConflict_def)

text \<open>
  C2. There is a store with a student who is registered for an existing course \<open>C\<close> with
  free seats, such that \<^verbatim>\<open>registerCourse\<close> for that student and \<open>C\<close> succeeds and the
  student's registration list afterwards is the old one followed by the identifier of
  \<open>C\<close> once more.
\<close>

theorem registerCourse_duplicate_possible:
  "\<exists>data studentUsername C rs data'.
      find (\<lambda>c. course_id c = course_id C) (courses data) = Some C
    \<and> (\<exists>s. find (\<lambda>s. username s = studentUsername) (students (users data)) = Some s
           \<and> registrations s = Some rs)
    \<and> course_id C \<in> set rs
    \<and> registrationsCount data (course_id C) < seats_or_default C
    \<and> registerCourse data studentUsername (course_id C) = Inr (data', ''Registered successfully'')
    \<and> (\<exists>s'. find (\<lambda>s. username s = studentUsername) (students (users data')) = Some s'
           \<and> registrations s' = Some (rs @ [course_id C]))"
proof -
  have c: "course_id seminar = ''SEM1''"
    by (simp add: seminar_def)
  have 1: "find (\<lambda>c. course_id c = course_id seminar) (courses seminar_store) = Some seminar"
    by (simp add: seminar_store_def)
  have 2: "\<exists>s. find (\<lambda>s. username s = ''student1'') (students (users seminar_store)) = Some s
             \<and> registrations s = Some [''SEM1'']"
    by (simp add: seminar_store_def)
  have 3: "registrationsCount seminar_store (course_id seminar) < seats_or_default seminar"
    by (simp add: seminar_store_def seminar_def registrationsCount_def
          includes_registration_def seats_or_default_def)
  let ?d = "seminar_store\<lparr>users := (users seminar_store)\<lparr>students :=
            [\<lparr>username = ''student1'', password = ''student1'', name = ''Student One'',
              registrations = Some [''SEM1'', ''SEM1'']\<rparr>]\<rparr>\<rparr>"
  have 4: "registerCourse seminar_store ''student1'' (course_id seminar)
             = Inr (?d, ''Registered successfully'')"
    unfolding c by (rule seminar_store_double)
  have 5: "\<exists>s'. find (\<lambda>s. username s = ''student1'') (students (users ?d)) = Some s'
             \<and> registrations s' = Some ([''SEM1''] @ [course_id seminar])"
    by (simp add: c)
  have 6: "course_id seminar \<in> set [''SEM1'']"
    by (simp add: c)
  from 1 2 3 4 5 6 show ?thesis
    by blast
qed

text \<open>
  The conflict check stands in the way of a second registration as soon as the course
  conflicts with itself, that is, when it has a day and its start is before its end.
\<close>

lemma registerCourse_again_conflict:
  assumes "find (\<lambda>c. course_id c = courseId) (courses data) = Some C"
    and "registrationsCount data courseId < seats_or_default C"
    and "find (\<lambda>s. username s = studentUsername) (students (users data)) = Some s"
    and "courseId \<in> set (registrations_or_empty s)"
    and "checkConflict C C"
  shows "registerCourse data studentUsername courseId
           = Inr (data, ''Cannot register due to a schedule conflict'')"
proof -
  from assms(1) have "C \<in> set (courses data)" and "course_id C = courseId"
    using find_in_set [of "\<lambda>c. course_id c = courseId" "courses data" C] by simp_all
  with assms(4,5)
  have "list_ex (\<lambda>rc. checkConflict rc C)
          (filter (\<lambda>c. course_id c \<in> set (registrations_or_empty s)) (courses data))"
    by (auto simp: list_ex_iff)
  with assms(1,2,3) show ?thesis
    by (simp add: registerCourse_def Let_def)
qed

subsection \<open>Course administration\<close>

text \<open>
  C7. When a course with the identifier of \<open>c\<close> is already in the course list,
  \<^verbatim>\<open>addCourse\<close> reports \<^verbatim>\<open>Course with same ID already exists.\<close> and the store stays as it
  is; otherwise \<open>c\<close> is appended at the end of the course list. In both cases the users
  are the ones before the call.
\<close>

theorem addCourse_duplicate_or_append:
  "addCourse data c =
     (if course_id c \<in> course_id ` set (courses data)
      then (data, ''Course with same ID already exists.'')
      else (data\<lparr>courses := courses data @ [c]\<rparr>, ''Course added''))
   \<and> users (fst (addCourse data c)) = users data"
proof (cases "find (\<lambda>x. course_id x = course_id c) (courses data)")
  case None
  then have "course_id c \<notin> course_id ` set (courses data)"
    by (simp add: find_is_None)
  with None show ?thesis
    by (simp add: addCourse_def)
next
  case (Some x)
  then have "course_id c \<in> course_id ` set (courses data)"
    using find_is_Some [of course_id "course_id c" "courses data"] by blast
  with Some show ?thesis
    by (simp add: addCourse_def)
qed

theorem addCourse_duplicate_or_append_witness:
  "addCourse defaultData (mon_course ''CSE101'' ''09:00'' ''10:00'')
     = (defaultData, ''Course with same ID already exists.'')
   \<and> addCourse defaultData (mon_course ''PHY101'' ''09:00'' ''10:00'')
     = (defaultData\<lparr>courses := courses defaultData @ [mon_course ''PHY101'' ''09:00'' ''10:00'']\<rparr>,
        ''Course added'')"
proof -
  have a: "course_id (mon_course ''CSE101'' ''09:00'' ''10:00'') \<in> course_id ` set (courses defaultData)"
    by (simp add: mon_course_def defaultData_def)
  have b: "course_id (mon_course ''PHY101'' ''09:00'' ''10:00'') \<notin> course_id ` set (courses defaultData)"
    by (simp add: mon_course_def defaultData_def)
  from a b addCourse_duplicate_or_append [of defaultData "mon_course ''CSE101'' ''09:00'' ''10:00''"]
    addCourse_duplicate_or_append [of defaultData "mon_course ''PHY101'' ''09:00'' ''10:00''"]
  show ?thesis by simp
qed

lemma updateCourse_courses:
  "courses (fst (updateCourse data updated))
     = map (\<lambda>c. if course_id c = course_id updated then updated else c) (courses data)"
  by (simp add: updateCourse_def)

text \<open>
  C8. \<^verbatim>\<open>updateCourse\<close> keeps the length of the course list and changes it position by
  position: a course whose identifier is that of the argument is replaced by the
  argument, every other course stays. The users stay. When no course has the identifier,
  the store is the one before the call, and the message is \<^verbatim>\<open>Course updated\<close> all the
  same (no error).
\<close>

theorem updateCourse_replaces_matching:
  "length (courses (fst (updateCourse data updated))) = length (courses data)
   \<and> (\<forall>i < length (courses data).
         courses (fst (updateCourse data updated)) ! i
           = (if course_id (courses data ! i) = course_id updated then updated
              else courses data ! i))
   \<and> users (fst (updateCourse data updated)) = users data
   \<and> ((\<forall>c\<in>set (courses data). course_id c \<noteq> course_id updated)
        \<longrightarrow> fst (updateCourse data updated) = data)
   \<and> snd (updateCourse data updated) = ''Course updated''"
proof (intro conjI)
  show "length (courses (fst (updateCourse data updated))) = length (courses data)"
    by (simp add: updateCourse_courses)
  show "\<forall>i < length (courses data).
         courses (fst (updateCourse data updated)) ! i
           = (if course_id (courses data ! i) = course_id updated then updated
              else courses data ! i)"
    by (simp add: updateCourse_courses)
  show "users (fst (updateCourse data updated)) = users data"
    by (simp add: updateCourse_def)
  show "(\<forall>c\<in>set (courses data). course_id c \<noteq> course_id updated)
        \<longrightarrow> fst (updateCourse data updated) = data"
  proof
    assume "\<forall>c\<in>set (courses data). course_id c \<noteq> course_id updated"
    then have "map (\<lambda>c. if course_id c = course_id updated then updated else c) (courses data)
                 = courses data"
      by (simp add: map_idI)
    then show "fst (updateCourse data updated) = data"
      by (simp add: updateCourse_def)
  qed
  show "snd (updateCourse data updated) = ''Course updated''"
    by (simp add: updateCourse_def)
qed

theorem updateCourse_replaces_matching_witness:
  "courses (fst (updateCourse defaultData (mon_course ''MAT201'' ''09:00'' ''10:00'')))
     = [courses defaultData ! 0, mon_course ''MAT201'' ''09:00'' ''10:00'']
   \<and> course_id (mon_course ''PHY101'' ''09:00'' ''10:00'') \<notin> course_id ` set (courses defaultData)
   \<and> fst (updateCourse defaultData (mon_course ''PHY101'' ''09:00'' ''10:00'')) = defaultData"
proof -
  have l: "length (courses defaultData) = 2"
    by (simp add: defaultData_def)
  have i: "course_id (courses defaultData ! 0) \<noteq> course_id (mon_course ''MAT201'' ''09:00'' ''10:00'')"
    "course_id (courses defaultData ! 1) = course_id (mon_course ''MAT201'' ''09:00'' ''10:00'')"
    by (simp_all add: defaultData_def mon_course_def)
  have n: "\<forall>c\<in>set (courses defaultData). course_id c \<noteq> course_id (mon_course ''PHY101'' ''09:00'' ''10:00'')"
    by (simp add: defaultData_def mon_course_def)
  have n': "course_id (mon_course ''PHY101'' ''09:00'' ''10:00'') \<notin> course_id ` set (courses defaultData)"
    by (simp add: defaultData_def mon_course_def)
  let ?cs = "courses (fst (updateCourse defaultData (mon_course ''MAT201'' ''09:00'' ''10:00'')))"
  note u = updateCourse_replaces_matching [of defaultData "mon_course ''MAT201'' ''09:00'' ''10:00''"]
  from u l have "length ?cs = 2" by simp
  moreover from u l i have "?cs ! 0 = courses defaultData ! 0" by simp
  moreover from u l i have "?cs ! 1 = mon_course ''MAT201'' ''09:00'' ''10:00''" by simp
  ultimately have r: "?cs = [courses defaultData ! 0, mon_course ''MAT201'' ''09:00'' ''10:00'']"
    by (simp add: list_eq_iff_nth_eq less_Suc_eq numeral_2_eq_2)
  have k: "fst (updateCourse defaultData (mon_course ''PHY101'' ''09:00'' ''10:00'')) = defaultData"
    using n updateCourse_replaces_matching [of defaultData "mon_course ''PHY101'' ''09:00'' ''10:00''"]
    by simp
  from r n' k show ?thesis
    by (intro conjI)
qed

subsection \<open>Deleting a course\<close>

lemma deleteCourse_courses:
  "courses (fst (deleteCourse data ident)) = filter (\<lambda>c. course_id c \<noteq> ident) (courses data)"
  by (simp add: deleteCourse_def Let_def)

lemma deleteCourse_students:
  "students (users (fst (deleteCourse data ident)))
     = map (\<lambda>s. s\<lparr>registrations :=
                     (case registrations s of
                        Some rs \<Rightarrow> Some (filter (\<lambda>r. r \<noteq> ident) rs)
                      | None \<Rightarrow> Some [])\<rparr>)
         (students (users data))"
  by (simp add: deleteCourse_def Let_def)

text \<open>
  C3. After \<^verbatim>\<open>deleteCourse\<close> no course of the store has the deleted identifier, the
  courses with other identifiers are all still there, and no student's registration list
  contains the deleted identifier.
\<close>

theorem deleteCourse_cascade:
  "(\<forall>c\<in>set (courses (fst (deleteCourse data ident))). course_id c \<noteq> ident)
   \<and> set (courses (fst (deleteCourse data ident)))
       = {c \<in> set (courses data). course_id c \<noteq> ident}
   \<and> (\<forall>s\<in>set (students (users (fst (deleteCourse data ident)))).
         ident \<notin> set (registrations_or_empty s))"
proof (intro conjI)
  show "\<forall>c\<in>set (courses (fst (deleteCourse data ident))). course_id c \<noteq> ident"
    by (simp add: deleteCourse_courses)
  show "set (courses (fst (deleteCourse data ident)))
       = {c \<in> set (courses data). course_id c \<noteq> ident}"
    by (simp add: deleteCourse_courses)
  show "\<forall>s\<in>set (students (users (fst (deleteCourse data ident)))).
          ident \<notin> set (registrations_or_empty s)"
    by (auto simp: deleteCourse_students registrations_or_empty_def split: option.splits)
qed

theorem deleteCourse_cascade_witness:
  "length (courses (fst (deleteCourse defaultData ''CSE101''))) = 1
   \<and> course_id (courses (fst (deleteCourse defaultData ''CSE101'')) ! 0) \<noteq> ''CSE101''
   \<and> map registrations (students (users one_seat_store)) = [Some [''CSE101''], Some []]
   \<and> length (students (users (fst (deleteCourse one_seat_store ''CSE101'')))) = 2
   \<and> ''CSE101'' \<notin> set (registrations_or_empty
         (students (users (fst (deleteCourse one_seat_store ''CSE101''))) ! 0))"
proof -
  let ?cs = "courses (fst (deleteCourse defaultData ''CSE101''))"
  let ?ss = "students (users (fst (deleteCourse one_seat_store ''CSE101'')))"
  have a: "length ?cs = 1"
    by (simp add: deleteCourse_courses defaultData_def)
  then have a': "?cs ! 0 \<in> set ?cs"
    using nth_mem [of 0 ?cs] by simp
  have b: "map registrations (students (users one_seat_store)) = [Some [''CSE101''], Some []]"
    by (simp add: one_seat_store_def)
  have c: "length ?ss = 2"
    by (simp add: deleteCourse_students one_seat_store_def)
  then have c': "?ss ! 0 \<in> set ?ss"
    using nth_mem [of 0 ?ss] by simp
  have "\<forall>c\<in>set ?cs. course_id c \<noteq> ''CSE101''"
    using deleteCourse_cascade [of defaultData "''CSE101''"] by (rule conjunct1)
  from this a' have d: "course_id (?cs ! 0) \<noteq> ''CSE101''"
    by (rule bspec)
  have "\<forall>s\<in>set ?ss. ''CSE101'' \<notin> set (registrations_or_empty s)"
    by (rule deleteCourse_cascade [of one_seat_store "''CSE101''", THEN conjunct2, THEN conjunct2])
  from this c' have e: "''CSE101'' \<notin> set (registrations_or_empty (?ss ! 0))"
    by (rule bspec)
  from a d b c e show ?thesis
    by (intro conjI)
qed

subsection \<open>Adding users\<close>

text \<open>
  C9. \<^verbatim>\<open>addUser\<close> with the type \<^verbatim>\<open>admin\<close> is refused (\<^verbatim>\<open>Admin username taken\<close>) exactly
  when the username is among the admins; with any other type it is refused
  (\<^verbatim>\<open>Student username taken\<close>) exactly when the username is among the students. So the
  two collections are separate namespaces. A refusal leaves the store as it is, an
  accepted admin is appended as given, and an accepted student is appended with the
  empty registration list.
\<close>

theorem addUser_namespaces:
  "(snd (addUser data ''admin'' user) = ''Admin username taken'')
      = (username user \<in> username ` set (admins (users data)))
   \<and> (type \<noteq> ''admin'' \<longrightarrow>
        (snd (addUser data type user) = ''Student username taken'')
          = (username user \<in> username ` set (students (users data))))
   \<and> (snd (addUser data type user) = ''Admin username taken''
        \<or> snd (addUser data type user) = ''Student username taken''
        \<longrightarrow> fst (addUser data type user) = data)
   \<and> (username user \<notin> username ` set (admins (users data)) \<longrightarrow>
        addUser data ''admin'' user
          = (data\<lparr>users := (users data)\<lparr>admins := admins (users data) @ [user]\<rparr>\<rparr>,
             ''Admin added''))
   \<and> (type \<noteq> ''admin'' \<and> username user \<notin> username ` set (students (users data)) \<longrightarrow>
        addUser data type user
          = (data\<lparr>users := (users data)\<lparr>students := students (users data) @
               [\<lparr>username = username user, password = password user, name = name user,
                 registrations = Some []\<rparr>]\<rparr>\<rparr>,
             ''Student added''))"
proof -
  have a: "(find (\<lambda>a. username a = username user) (admins (users data)) = None)
             = (username user \<notin> username ` set (admins (users data)))"
    by (rule find_is_None)
  have s: "(find (\<lambda>s. username s = username user) (students (users data)) = None)
             = (username user \<notin> username ` set (students (users data)))"
    by (rule find_is_None)
  show ?thesis
    using a s by (auto simp: addUser_def split: option.splits)
qed

theorem addUser_namespaces_witness:
  "snd (addUser defaultData ''admin'' \<lparr>username = ''admin1'', password = ''pw'', name = ''N''\<rparr>)
     = ''Admin username taken''
   \<and> snd (addUser defaultData ''student'' \<lparr>username = ''student1'', password = ''pw'', name = ''N''\<rparr>)
     = ''Student username taken''
   \<and> fst (addUser defaultData ''student'' \<lparr>username = ''student1'', password = ''pw'', name = ''N''\<rparr>)
     = defaultData
   \<and> addUser defaultData ''student'' \<lparr>username = ''admin1'', password = ''pw'', name = ''N''\<rparr>
     = (defaultData\<lparr>users := (users defaultData)\<lparr>students := students (users defaultData) @
          [\<lparr>username = ''admin1'', password = ''pw'', name = ''N'', registrations = Some []\<rparr>]\<rparr>\<rparr>,
        ''Student added'')
   \<and> addUser defaultData ''admin'' \<lparr>username = ''student1'', password = ''pw'', name = ''N''\<rparr>
     = (defaultData\<lparr>users := (users defaultData)\<lparr>admins := admins (users defaultData) @
          [\<lparr>username = ''student1'', password = ''pw'', name = ''N''\<rparr>]\<rparr>\<rparr>,
        ''Admin added'')"
proof -
  have ad: "username ` set (admins (users defaultData)) = {''admin1'', ''admin2''}"
    by (simp add: defaultData_def)
  have st: "username ` set (students (users defaultData)) = {''student1'', ''student2''}"
    by (simp add: defaultData_def)
  have ne: "''student'' \<noteq> ''admin''"
    by simp
  from addUser_namespaces [of defaultData "\<lparr>username = ''admin1'', password = ''pw'', name = ''N''\<rparr>" "''student''"]
    addUser_namespaces [of defaultData "\<lparr>username = ''student1'', password = ''pw'', name = ''N''\<rparr>" "''student''"]
  show ?thesis
    unfolding ad st using ne by simp
qed

end
